theory Spec2Isabelle
  imports Complex_Main "HOL-Library.AList" "HOL-Library.Sublist"
begin

section \<open>Python values, exceptions and dictionaries\<close>

text \<open>
  The repository is Python. An exception is a value \<open>Raise cls msg\<close>; a call that may raise
  returns \<open>exn + 'a\<close> with \<open>Inl\<close> for the raised exception. \<open>str_exn\<close> is Python's \<open>str(e)\<close>.
  A \<open>dict\<close> with string keys is an association list in insertion order; \<open>AList.update\<close>
  is item assignment (an existing key keeps its place, a new key goes last).
\<close>

datatype exn_class =
  Exception | ValueError | KeyError | IndexError | ZeroDivisionError
  | FileNotFoundError | OSError | AssertionError

datatype exn = Raise exn_class string

fun str_exn :: "exn \<Rightarrow> string" where
  "str_exn (Raise c m) = m"

datatype pyval = PyStr string | PyInt int | PyFloat real

type_synonym pydict = "(string \<times> pyval) list"

text \<open>\<open>d.update(other)\<close>\<close>

definition dict_update :: "(string \<times> 'v) list \<Rightarrow> (string \<times> 'v) list \<Rightarrow> (string \<times> 'v) list" where
  "dict_update d other = fold (\<lambda>(k, v) acc. AList.update k v acc) other d"

text \<open>\<open>try: body except Exception as e: raise Exception(f"<prefix>{str(e)}")\<close>\<close>

definition reraise :: "string \<Rightarrow> exn + 'a \<Rightarrow> exn + 'a" where
  "reraise pre r =
     (case r of Inl e \<Rightarrow> Inl (Raise Exception (pre @ str_exn e)) | Inr v \<Rightarrow> Inr v)"

text \<open>Sequencing: the first exception ends the run.\<close>

definition and_then :: "exn + 'a \<Rightarrow> ('a \<Rightarrow> exn + 'b) \<Rightarrow> exn + 'b" where
  "and_then r f = (case r of Inl e \<Rightarrow> Inl e | Inr v \<Rightarrow> f v)"

text \<open>\<open>a / b\<close> on ints, \<open>max(xs)\<close> and \<open>min(xs)\<close> on a sequence of ints.\<close>

definition py_truediv :: "int \<Rightarrow> int \<Rightarrow> exn + real" where
  "py_truediv a b =
     (if b = 0 then Inl (Raise ZeroDivisionError ''division by zero'')
      else Inr (real_of_int a / real_of_int b))"

definition py_max :: "int list \<Rightarrow> exn + int" where
  "py_max xs =
     (case xs of [] \<Rightarrow> Inl (Raise ValueError ''max() arg is an empty sequence'')
      | y # ys \<Rightarrow> Inr (fold max ys y))"

definition py_min :: "int list \<Rightarrow> exn + int" where
  "py_min xs =
     (case xs of [] \<Rightarrow> Inl (Raise ValueError ''min() arg is an empty sequence'')
      | y # ys \<Rightarrow> Inr (fold min ys y))"

section \<open>cache.py\<close>

text \<open>
  \<open>diskcache.Cache\<close> is a table from key to (value, expire_time); \<open>expire_time\<close> is
  \<open>None\<close> for an entry that never expires. \<open>now\<close> is the reading of \<open>time.time()\<close>.
\<close>

type_synonym diskcache = "(string \<times> (pyval \<times> real option)) list"

definition diskcache_set :: "real \<Rightarrow> diskcache \<Rightarrow> string \<Rightarrow> pyval \<Rightarrow> real option \<Rightarrow> diskcache" where
  "diskcache_set now rows key v expire =
     AList.update key (v, map_option (\<lambda>d. now + d) expire) rows"

definition diskcache_get :: "real \<Rightarrow> diskcache \<Rightarrow> string \<Rightarrow> pyval option" where
  "diskcache_get now rows key =
     (case map_of rows key of
        None \<Rightarrow> None
      | Some (v, None) \<Rightarrow> Some v
      | Some (v, Some t) \<Rightarrow> (if now < t then Some v else None))"

definition diskcache_delete :: "diskcache \<Rightarrow> string \<Rightarrow> diskcache" where
  "diskcache_delete rows key = AList.delete key rows"

definition diskcache_clear :: "diskcache \<Rightarrow> diskcache" where
  "diskcache_clear rows = []"

record Cache =
  cache :: diskcache
  ttl :: int

text \<open>\<open>Cache.__init__\<close>: the rows already in the cache directory, and the default TTL.\<close>

definition Cache_init :: "diskcache \<Rightarrow> Cache" where
  "Cache_init rows = \<lparr>cache = rows, ttl = 3600\<rparr>"

text \<open>\<open>ttl or self.ttl\<close>: \<open>None\<close> and \<open>0\<close> are falsy.\<close>

definition ttl_or :: "int option \<Rightarrow> int \<Rightarrow> int" where
  "ttl_or t dflt = (case t of None \<Rightarrow> dflt | Some n \<Rightarrow> (if n = 0 then dflt else n))"

definition Cache_get :: "real \<Rightarrow> Cache \<Rightarrow> string \<Rightarrow> pyval option" where
  "Cache_get now c key = diskcache_get now (cache c) key"

definition Cache_set :: "real \<Rightarrow> Cache \<Rightarrow> string \<Rightarrow> pyval \<Rightarrow> int option \<Rightarrow> Cache" where
  "Cache_set now c key v t =
     c\<lparr>cache := diskcache_set now (cache c) key v (Some (real_of_int (ttl_or t (ttl c))))\<rparr>"

definition Cache_delete :: "Cache \<Rightarrow> string \<Rightarrow> Cache" where
  "Cache_delete c key = c\<lparr>cache := diskcache_delete (cache c) key\<rparr>"

section \<open>document\_processor.py\<close>

record document =
  page_content :: string
  metadata :: pydict

text \<open>
  The text splitter, its constructor and \<open>hashlib.sha256(...).hexdigest()\<close> belong to libraries;
  they are parameters (\<open>doc_lib\<close>). The splitter object is known by the two arguments it was
  built from. \<open>DocumentProcessor.__init__\<close> only builds the splitter (defaults 1000 and 200,
  \<open>None\<close> standing for an omitted argument); \<open>chunk_documents\<close> splits, then writes the four
  metadata entries into every chunk. The splitter returns fresh \<open>Document\<close> objects, so the
  in-place \<open>metadata.update\<close> of one chunk touches no other.
\<close>

record text_splitter =
  chunk_size :: int
  chunk_overlap :: int

record doc_lib =
  RecursiveCharacterTextSplitter :: "int \<Rightarrow> int \<Rightarrow> exn + text_splitter"
  split_documents :: "text_splitter \<Rightarrow> document list \<Rightarrow> exn + document list"
  sha256_hexdigest :: "string \<Rightarrow> string"

record DocumentProcessor =
  text_splitter :: text_splitter

definition DocumentProcessor_init :: "doc_lib \<Rightarrow> int option \<Rightarrow> int option \<Rightarrow> exn + DocumentProcessor" where
  "DocumentProcessor_init lib size_arg overlap_arg =
     and_then
       (RecursiveCharacterTextSplitter lib
          (case size_arg of None \<Rightarrow> 1000 | Some n \<Rightarrow> n)
          (case overlap_arg of None \<Rightarrow> 200 | Some n \<Rightarrow> n))
       (\<lambda>splitter. Inr \<lparr>text_splitter = splitter\<rparr>)"

definition generate_chunk_hash :: "doc_lib \<Rightarrow> string \<Rightarrow> string" where
  "generate_chunk_hash lib content = sha256_hexdigest lib content"

definition chunk_documents :: "doc_lib \<Rightarrow> DocumentProcessor \<Rightarrow> document list \<Rightarrow> exn + document list" where
  "chunk_documents lib self documents =
     reraise ''Error chunking documents: ''
       (and_then (split_documents lib (text_splitter self) documents) (\<lambda>chunks.
          Inr (map (\<lambda>(i, chunk).
                 chunk\<lparr>metadata := dict_update (metadata chunk)
                   [(''chunk_id'', PyInt (int i)),
                    (''chunk_hash'', PyStr (generate_chunk_hash lib (page_content chunk))),
                    (''chunk_size'', PyInt (int (length (page_content chunk)))),
                    (''total_chunks'', PyInt (int (length chunks)))]\<rparr>)
               (enumerate 0 chunks))))"

definition get_chunk_stats :: "document list \<Rightarrow> exn + pydict" where
  "get_chunk_stats chunks =
     reraise ''Error calculating chunk statistics: ''
       (let sizes = map (\<lambda>c. int (length (page_content c))) chunks in
        and_then (py_truediv (sum_list sizes) (int (length chunks))) (\<lambda>average.
        and_then (py_max sizes) (\<lambda>largest.
        and_then (py_min sizes) (\<lambda>smallest.
          Inr [(''total_chunks'', PyInt (int (length chunks))),
               (''average_chunk_size'', PyFloat average),
               (''largest_chunk'', PyInt largest),
               (''smallest_chunk'', PyInt smallest)]))))"

section \<open>web\_search.py and config.py\<close>

text \<open>
  The search provider (\<open>DDGS.text\<close>) and \<open>urllib.parse.urlparse(url).netloc\<close> are
  parameters (\<open>web_lib\<close>). A provider hit is a \<open>dict\<close> of strings; \<open>r[k]\<close> raises
  \<open>KeyError\<close> on a missing key. \<open>search_body\<close> is the body of the \<open>for\<close> loop of
  \<open>KenyanWebSearch.search\<close>, \<open>search_loop\<close> the loop; \<open>max_results = None\<close> stands for the
  omitted argument (default 5).
\<close>

definition getitem :: "(string \<times> 'v) list \<Rightarrow> string \<Rightarrow> exn + 'v" where
  "getitem d k =
     (case map_of d k of
        None \<Rightarrow> Inl (Raise KeyError ([CHR 0x27] @ k @ [CHR 0x27]))
      | Some v \<Rightarrow> Inr v)"

definition lower_char :: "char \<Rightarrow> char" where
  "lower_char c =
     (case map_of (zip ''ABCDEFGHIJKLMNOPQRSTUVWXYZ'' ''abcdefghijklmnopqrstuvwxyz'') c of
        Some l \<Rightarrow> l | None \<Rightarrow> c)"

definition str_lower :: "string \<Rightarrow> string" where
  "str_lower s = map lower_char s"

definition KENYA_DOMAINS :: "string list" where
  "KENYA_DOMAINS = [''.ke'', ''co.ke'', ''ac.ke'', ''go.ke'', ''or.ke'']"

type_synonym strdict = "(string \<times> string) list"

record web_lib =
  ddgs_text :: "string \<Rightarrow> nat \<Rightarrow> exn + strdict list"
  urlparse_netloc :: "string \<Rightarrow> exn + string"

definition is_kenyan_domain :: "web_lib \<Rightarrow> string \<Rightarrow> exn + bool" where
  "is_kenyan_domain lib url =
     and_then (urlparse_netloc lib url) (\<lambda>netloc.
       let domain = str_lower netloc
       in Inr (list_ex (\<lambda>tld. suffix tld domain) KENYA_DOMAINS))"

definition search_body :: "web_lib \<Rightarrow> int \<Rightarrow> strdict list \<Rightarrow> strdict \<Rightarrow> exn + strdict list" where
  "search_body lib max_results results r =
     and_then (getitem r ''link'') (\<lambda>link.
     and_then (is_kenyan_domain lib link) (\<lambda>kenyan.
       if kenyan \<and> int (length results) < max_results then
         and_then (getitem r ''title'') (\<lambda>title.
         and_then (getitem r ''link'') (\<lambda>link'.
         and_then (getitem r ''body'') (\<lambda>body.
           Inr (results @ [[(''title'', title), (''link'', link'), (''snippet'', body)]]))))
       else Inr results))"

fun search_loop :: "web_lib \<Rightarrow> int \<Rightarrow> strdict list \<Rightarrow> strdict list \<Rightarrow> exn + strdict list" where
  "search_loop lib max_results [] results = Inr results"
| "search_loop lib max_results (r # rs) results =
     (case search_body lib max_results results r of
        Inl e \<Rightarrow> Inl e
      | Inr results' \<Rightarrow> search_loop lib max_results rs results')"

definition search :: "web_lib \<Rightarrow> string \<Rightarrow> int option \<Rightarrow> exn + strdict list" where
  "search lib query max_results =
     (let m = (case max_results of None \<Rightarrow> 5 | Some m \<Rightarrow> m)
      in and_then (ddgs_text lib query 20) (\<lambda>hits. search_loop lib m hits []))"

text \<open>
  For stating what the loop keeps: \<open>kenyan_hit\<close> says that a hit's link has a netloc whose
  lower-cased text ends with one of \<open>KENYA_DOMAINS\<close>; \<open>result_of_hit\<close> is the dictionary the
  loop appends for a kept hit.
\<close>

definition kenyan_hit :: "web_lib \<Rightarrow> strdict \<Rightarrow> bool" where
  "kenyan_hit lib r =
     (\<exists>link netloc. map_of r ''link'' = Some link \<and> urlparse_netloc lib link = Inr netloc
        \<and> (\<exists>tld \<in> set KENYA_DOMAINS. suffix tld (str_lower netloc)))"

definition result_of_hit :: "strdict \<Rightarrow> strdict" where
  "result_of_hit r =
     [(''title'', the (map_of r ''title'')), (''link'', the (map_of r ''link'')),
      (''snippet'', the (map_of r ''body''))]"

section \<open>vector\_store.py\<close>

subsection \<open>The FAISS vector store of the library\<close>

text \<open>
  \<open>langchain_community.vectorstores.FAISS\<close> keeps, row by row, an embedding, the identifier
  of the row and its \<open>Document\<close>; \<open>index_d\<close> is the dimension of the index (\<open>index.d\<close>),
  fixed when the store is created. Embeddings are lists of floats, read as reals. The
  embedding model, the identifiers drawn by \<open>uuid.uuid4()\<close> (the \<open>j\<close>-th drawn in a call),
  the clock, serialisation to disk and \<open>FAISS.delete\<close> are parameters (\<open>vs_lib\<close>); a failing
  library call leaves the store as it was before the call.

  Files are byte strings by name. \<open>save_local\<close> gets the files that stand directly in
  \<open>persist_dir\<close> and returns them as it left them, with the exception it raised, if any;
  \<open>load_local\<close> reads them.
\<close>

type_synonym vector = "real list"

record entry =
  eid :: string
  embedding :: vector
  doc :: document

record faiss =
  index_d :: nat
  entries :: "entry list"

type_synonym files = "(string \<times> string) list"

record vs_lib =
  docs_lib :: doc_lib
  embed_document :: "string \<Rightarrow> exn + vector"
  embed_query :: "string \<Rightarrow> exn + vector"
  uuid4 :: "nat \<Rightarrow> string"
  strftime_now :: string
  faiss_delete :: "string \<Rightarrow> faiss \<Rightarrow> exn + faiss"
  save_local :: "faiss \<Rightarrow> files \<Rightarrow> exn option \<times> files"
  load_local :: "files \<Rightarrow> exn + faiss"

text \<open>\<open>embeddings.embed_documents(texts)\<close>: one vector per text, or the first failure.\<close>

fun embed_documents :: "vs_lib \<Rightarrow> string list \<Rightarrow> exn + vector list" where
  "embed_documents lib [] = Inr []"
| "embed_documents lib (t # ts) =
     (case embed_document lib t of
        Inl e \<Rightarrow> Inl e
      | Inr v \<Rightarrow> (case embed_documents lib ts of Inl e \<Rightarrow> Inl e | Inr vs \<Rightarrow> Inr (v # vs)))"

text \<open>
  The library's \<open>__add\<close>: build the documents (\<open>metadatas[i] if metadatas else {}\<close>), add the
  vectors to the index (which accepts only a non-empty batch of dimension \<open>index.d\<close>), draw
  the identifiers and append the rows. Identifiers are \<open>uuid4\<close> draws, taken as new to the
  store.
\<close>

definition faiss_add :: "vs_lib \<Rightarrow> string list \<Rightarrow> vector list \<Rightarrow> pydict list \<Rightarrow> faiss \<Rightarrow> exn + faiss" where
  "faiss_add lib texts vecs metadatas st =
     (if metadatas \<noteq> [] \<and> length metadatas < length texts then
        Inl (Raise IndexError ''list index out of range'')
      else if vecs = [] then
        Inl (Raise ValueError ''not enough values to unpack (expected 2, got 1)'')
      else if list_ex (\<lambda>v. length v \<noteq> index_d st) vecs then
        Inl (Raise AssertionError [])
      else
        Inr (st\<lparr>entries := entries st @
               map (\<lambda>(j, (t, v)).
                      \<lparr>eid = uuid4 lib j, embedding = v,
                       doc = \<lparr>page_content = t,
                              metadata = (if metadatas = [] then [] else metadatas ! j)\<rparr>\<rparr>)
                   (enumerate 0 (zip texts vecs))\<rparr>))"

definition FAISS_from_texts :: "vs_lib \<Rightarrow> string list \<Rightarrow> pydict list \<Rightarrow> exn + faiss" where
  "FAISS_from_texts lib texts metadatas =
     and_then (embed_documents lib texts) (\<lambda>vecs.
       case vecs of
         [] \<Rightarrow> Inl (Raise IndexError ''list index out of range'')
       | v # _ \<Rightarrow> faiss_add lib texts vecs metadatas \<lparr>index_d = length v, entries = []\<rparr>)"

definition FAISS_add_texts :: "vs_lib \<Rightarrow> string list \<Rightarrow> pydict list \<Rightarrow> faiss \<Rightarrow> exn + faiss" where
  "FAISS_add_texts lib texts metadatas st =
     and_then (embed_documents lib texts) (\<lambda>vecs. faiss_add lib texts vecs metadatas st)"

text \<open>
  \<open>FAISS.similarity_search(query, k, filter)\<close>: embed the query, take the \<open>k\<close> nearest rows
  (the 20 nearest when a filter is given) by squared Euclidean distance, keep those whose
  metadata pass the filter, and return \<open>docs[:k]\<close>. The index refuses a query of another
  dimension and a request for no rows.
\<close>

definition l2_sqr :: "vector \<Rightarrow> vector \<Rightarrow> real" where
  "l2_sqr u v = sum_list (map (\<lambda>(a, b). (a - b)\<^sup>2) (zip u v))"

definition py_prefix :: "int \<Rightarrow> 'a list \<Rightarrow> 'a list" where
  "py_prefix k xs = (if 0 \<le> k then take (nat k) xs else take (length xs - nat (- k)) xs)"

definition FAISS_similarity_search ::
    "vs_lib \<Rightarrow> faiss \<Rightarrow> string \<Rightarrow> int \<Rightarrow> (pydict \<Rightarrow> bool) option \<Rightarrow> exn + document list" where
  "FAISS_similarity_search lib st query k flt =
     and_then (embed_query lib query) (\<lambda>q.
       let fetch = (case flt of None \<Rightarrow> k | Some f \<Rightarrow> 20) in
       if length q \<noteq> index_d st \<or> fetch \<le> 0 then Inl (Raise AssertionError [])
       else
         let nearest = take (nat fetch) (sort_key (\<lambda>e. l2_sqr q (embedding e)) (entries st));
             kept = filter (\<lambda>e. case flt of None \<Rightarrow> True | Some f \<Rightarrow> f (metadata (doc e))) nearest
         in Inr (map doc (py_prefix k kept)))"




subsection \<open>class VectorStore\<close>

text \<open>
  The state of a \<open>VectorStore\<close> object together with the part of the disk it owns:
  \<open>dir_files\<close> are the files directly in \<open>persist_dir\<close> (\<open>index_file\<close> is \<open>faiss_index\<close>,
  \<open>store_file\<close> is \<open>store.pkl\<close>), \<open>backup_dirs\<close> the directories under
  \<open>persist_dir/backups\<close>, each with its files. A method returns its result, or the exception
  it raised, and the state it left. \<open>os\<close> and \<open>shutil\<close> calls fail only for a missing source
  file; \<open>print\<close> is not modelled. \<open>delete_document\<close> hands \<open>document_id\<close>, a \<open>str\<close>, to
  \<open>FAISS.delete\<close> as it is; what the library does with it is the parameter \<open>faiss_delete\<close>.
\<close>

record VectorStore =
  persist_dir :: string
  doc_processor :: DocumentProcessor
  self_cache :: Cache
  vector_store :: faiss
  dir_files :: files
  backup_dirs :: "(string \<times> files) list"

text \<open>\<open>os.path.join(a, b)\<close> (posix) and \<open>repr\<close> of a plain string.\<close>

definition path_join :: "string \<Rightarrow> string \<Rightarrow> string" where
  "path_join a b =
     (if b \<noteq> [] \<and> hd b = CHR ''/'' then b
      else if a = [] \<or> last a = CHR ''/'' then a @ b
      else a @ ''/'' @ b)"

definition quoted :: "string \<Rightarrow> string" where
  "quoted s = [CHR 0x27] @ s @ [CHR 0x27]"

definition no_such_file :: "string \<Rightarrow> exn" where
  "no_such_file path = Raise FileNotFoundError (''[Errno 2] No such file or directory: '' @ quoted path)"


definition store_file :: "VectorStore \<Rightarrow> string" where
  "store_file self = path_join (persist_dir self) ''store.pkl''"

definition backup_dir :: "VectorStore \<Rightarrow> string" where
  "backup_dir self = path_join (persist_dir self) ''backups''"

definition create_new_store :: "vs_lib \<Rightarrow> exn + faiss" where
  "create_new_store lib =
     FAISS_from_texts lib [''initialization document''] [[(''source'', PyStr ''initialization'')]]"

definition load_or_create_store :: "vs_lib \<Rightarrow> files \<Rightarrow> exn + faiss" where
  "load_or_create_store lib fs =
     (if map_of fs ''faiss_index'' \<noteq> None \<and> map_of fs ''store.pkl'' \<noteq> None then
        (case load_local lib fs of
           Inr st \<Rightarrow> Inr st
         | Inl e \<Rightarrow> create_new_store lib)
      else create_new_store lib)"

definition VectorStore_init ::
    "vs_lib \<Rightarrow> string \<Rightarrow> files \<Rightarrow> (string \<times> files) list \<Rightarrow> diskcache \<Rightarrow> exn + VectorStore" where
  "VectorStore_init lib dir fs bs rows =
     and_then (DocumentProcessor_init (docs_lib lib) None None) (\<lambda>dp.
     and_then (load_or_create_store lib fs) (\<lambda>st.
       Inr \<lparr>persist_dir = dir, doc_processor = dp, self_cache = Cache_init rows,
            vector_store = st, dir_files = fs, backup_dirs = bs\<rparr>))"

definition save_store :: "vs_lib \<Rightarrow> VectorStore \<Rightarrow> exn option \<times> VectorStore" where
  "save_store lib self =
     (case save_local lib (vector_store self) (dir_files self) of
        (err, fs) \<Rightarrow> (err, self\<lparr>dir_files := fs\<rparr>))"

definition create_backup :: "vs_lib \<Rightarrow> VectorStore \<Rightarrow> (exn + string) \<times> VectorStore" where
  "create_backup lib self =
     (case map_of (dir_files self) ''faiss_index'' of
        None \<Rightarrow> (Inr ''No vector store to backup'', self)
      | Some ix \<Rightarrow>
          let name = ''backup_'' @ strftime_now lib;
              backup_path = path_join (backup_dir self) name;
              dir0 = (case map_of (backup_dirs self) name of None \<Rightarrow> [] | Some fs \<Rightarrow> fs);
              dir1 = AList.update ''faiss_index'' ix dir0;
              self1 = self\<lparr>backup_dirs := AList.update name dir1 (backup_dirs self)\<rparr>
          in (case map_of (dir_files self) ''store.pkl'' of
                None \<Rightarrow> (Inl (no_such_file (store_file self)), self1)
              | Some st \<Rightarrow>
                  (Inr (''Backup created at '' @ backup_path),
                   self\<lparr>backup_dirs :=
                          AList.update name (AList.update ''store.pkl'' st dir1) (backup_dirs self)\<rparr>)))"

definition restore_backup :: "vs_lib \<Rightarrow> string \<Rightarrow> VectorStore \<Rightarrow> (exn + string) \<times> VectorStore" where
  "restore_backup lib backup_timestamp self =
     (let name = ''backup_'' @ backup_timestamp;
          backup_path = path_join (backup_dir self) name
      in case map_of (backup_dirs self) name of
           None \<Rightarrow> (Inr (''Backup '' @ backup_timestamp @ '' not found''), self)
         | Some dir \<Rightarrow>
             (case map_of dir ''faiss_index'' of
                None \<Rightarrow> (Inl (no_such_file (path_join backup_path ''faiss_index'')), self)
              | Some ix \<Rightarrow>
                  let self1 = self\<lparr>dir_files := AList.update ''faiss_index'' ix (dir_files self)\<rparr>
                  in (case map_of dir ''store.pkl'' of
                        None \<Rightarrow> (Inl (no_such_file (path_join backup_path ''store.pkl'')), self1)
                      | Some st \<Rightarrow>
                          let self2 = self1\<lparr>dir_files := AList.update ''store.pkl'' st (dir_files self1)\<rparr>
                          in (case load_or_create_store lib (dir_files self2) of
                                Inl e \<Rightarrow> (Inl e, self2)
                              | Inr vs \<Rightarrow>
                                  (Inr (''Restored from backup '' @ backup_timestamp),
                                   self2\<lparr>vector_store := vs\<rparr>)))))"

definition clear_cache :: "VectorStore \<Rightarrow> VectorStore" where
  "clear_cache self = self\<lparr>self_cache := (self_cache self)\<lparr>cache := diskcache_clear (cache (self_cache self))\<rparr>\<rparr>"

definition wrap :: "string \<Rightarrow> exn \<Rightarrow> exn" where
  "wrap pre e = Raise Exception (pre @ str_exn e)"

definition add_documents :: "vs_lib \<Rightarrow> document list \<Rightarrow> VectorStore \<Rightarrow> (exn + unit) \<times> VectorStore" where
  "add_documents lib documents self =
     (case chunk_documents (docs_lib lib) (doc_processor self) documents of
        Inl e \<Rightarrow> (Inl (wrap ''Error adding documents: '' e), self)
      | Inr chunks \<Rightarrow>
          let texts = map page_content chunks;
              metadatas = map metadata chunks
          in (case create_backup lib self of
                (Inl e, self1) \<Rightarrow> (Inl (wrap ''Error adding documents: '' e), self1)
              | (Inr msg, self1) \<Rightarrow>
                  if texts = [] then (Inr (), self1)
                  else
                    (case FAISS_add_texts lib texts metadatas (vector_store self1) of
                       Inl e \<Rightarrow> (Inl (wrap ''Error adding documents: '' e), self1)
                     | Inr vs \<Rightarrow>
                         (case save_store lib (self1\<lparr>vector_store := vs\<rparr>) of
                            (Some e, self2) \<Rightarrow> (Inl (wrap ''Error adding documents: '' e), self2)
                          | (None, self2) \<Rightarrow> (Inr (), clear_cache self2)))))"

definition similarity_search ::
    "vs_lib \<Rightarrow> VectorStore \<Rightarrow> string \<Rightarrow> int option \<Rightarrow> (pydict \<Rightarrow> bool) option \<Rightarrow> document list" where
  "similarity_search lib self query k flt =
     (case FAISS_similarity_search lib (vector_store self) query
             (case k of None \<Rightarrow> 4 | Some n \<Rightarrow> n) flt of
        Inr docs \<Rightarrow> docs
      | Inl e \<Rightarrow> [])"

definition delete_document :: "vs_lib \<Rightarrow> string \<Rightarrow> VectorStore \<Rightarrow> (exn + unit) \<times> VectorStore" where
  "delete_document lib document_id self =
     (case create_backup lib self of
        (Inl e, self1) \<Rightarrow> (Inl (wrap ''Error deleting document: '' e), self1)
      | (Inr msg, self1) \<Rightarrow>
          (case faiss_delete lib document_id (vector_store self1) of
             Inl e \<Rightarrow> (Inl (wrap ''Error deleting document: '' e), self1)
           | Inr vs \<Rightarrow>
               (case save_store lib (self1\<lparr>vector_store := vs\<rparr>) of
                  (Some e, self2) \<Rightarrow> (Inl (wrap ''Error deleting document: '' e), self2)
                | (None, self2) \<Rightarrow> (Inr (), clear_cache self2))))"


subsection \<open>A predicate for stating the claims\<close>

text \<open>
  \<open>index_and_store_file_copied lib self self'\<close>: \<open>faiss_index\<close> and \<open>store.pkl\<close> exist in
  \<open>self\<close>; before anything else changed, \<open>create_backup\<close> returned normally from \<open>self\<close> and
  left a backup directory named by the clock that holds copies of these two files as they
  were in \<open>self\<close>; and the backup directories of \<open>self'\<close> are still those. No other file of
  \<open>persist_dir\<close> is asked for.
\<close>

definition index_and_store_file_copied :: "vs_lib \<Rightarrow> VectorStore \<Rightarrow> VectorStore \<Rightarrow> bool" where
  "index_and_store_file_copied lib self self' \<longleftrightarrow>
     (\<exists>ix st msg self1 dir.
        map_of (dir_files self) ''faiss_index'' = Some ix
      \<and> map_of (dir_files self) ''store.pkl'' = Some st
      \<and> create_backup lib self = (Inr msg, self1)
      \<and> vector_store self1 = vector_store self \<and> dir_files self1 = dir_files self
      \<and> map_of (backup_dirs self1) (''backup_'' @ strftime_now lib) = Some dir
      \<and> map_of dir ''faiss_index'' = Some ix \<and> map_of dir ''store.pkl'' = Some st
      \<and> backup_dirs self' = backup_dirs self1)"

section \<open>Concrete environments\<close>

text \<open>
  A concrete provider and a plain reading of \<open>urlsplit\<close> (scheme, then \<open>//netloc\<close> up to the
  first \<open>/\<close>, \<open>?\<close> or \<open>#\<close>), used to run the model on an example.
\<close>

definition url_after_scheme :: "string \<Rightarrow> string" where
  "url_after_scheme url =
     (let s = takeWhile (\<lambda>c. c \<noteq> CHR '':'') url
      in if length s < length url \<and> s \<noteq> []
            \<and> hd s \<in> set ''abcdefghijklmnopqrstuvwxyzABCDEFGHIJKLMNOPQRSTUVWXYZ''
            \<and> list_all (\<lambda>c. c \<in> set ''abcdefghijklmnopqrstuvwxyzABCDEFGHIJKLMNOPQRSTUVWXYZ0123456789+-.'') s
         then drop (Suc (length s)) url else url)"

definition plain_netloc :: "string \<Rightarrow> exn + string" where
  "plain_netloc url =
     (let r = url_after_scheme url
      in if take 2 r = ''//'' then Inr (takeWhile (\<lambda>c. c \<notin> set ''/?#'') (drop 2 r))
         else Inr [])"

definition demo_hits :: "strdict list" where
  "demo_hits =
     [[(''title'', ''KRA''), (''link'', ''https://www.KRA.go.ke/services''), (''body'', ''Tax'')],
      [(''title'', ''Other''), (''link'', ''https://example.com/ke''), (''body'', ''No'')],
      [(''title'', ''UoN''), (''link'', ''http://uonbi.ac.ke''), (''body'', ''University'')]]"

definition demo_web :: web_lib where
  "demo_web = \<lparr>ddgs_text = (\<lambda>q n. Inr (take n demo_hits)), urlparse_netloc = plain_netloc\<rparr>"

text \<open>
  A concrete splitter for running the model: it cuts the content into windows of
  \<open>chunk_size\<close> characters, each starting \<open>chunk_size - chunk_overlap\<close> after the previous one,
  and records \<open>start_index\<close>; like the library's splitter it yields no chunk for an empty
  text, and its constructor rejects an overlap larger than the chunk size.
\<close>

fun windows :: "nat \<Rightarrow> nat \<Rightarrow> nat \<Rightarrow> nat \<Rightarrow> string \<Rightarrow> (nat \<times> string) list" where
  "windows 0 width step off txt = []"
| "windows (Suc fuel) width step off txt =
     (if txt = [] then []
      else (off, take width txt) #
           (if length txt \<le> width then [] else windows fuel width step (off + step) (drop step txt)))"

definition window_split :: "text_splitter \<Rightarrow> document list \<Rightarrow> exn + document list" where
  "window_split sp docs =
     Inr (concat (map (\<lambda>d.
        map (\<lambda>(off, t). \<lparr>page_content = t,
                          metadata = AList.update ''start_index'' (PyInt (int off)) (metadata d)\<rparr>)
            (windows (length (page_content d)) (nat (chunk_size sp))
               (nat (chunk_size sp) - nat (chunk_overlap sp)) 0 (page_content d))) docs))"

definition demo_doc_lib :: doc_lib where
  "demo_doc_lib =
     \<lparr>RecursiveCharacterTextSplitter = (\<lambda>cs co.
         if co > cs then Inl (Raise ValueError ''Got a larger chunk overlap than chunk size, should be smaller.'')
         else Inr \<lparr>chunk_size = cs, chunk_overlap = co\<rparr>),
      split_documents = window_split,
      sha256_hexdigest = (\<lambda>s. ''sha256 of '' @ s)\<rparr>"

text \<open>
  A concrete library for the vector store: an embedder that always answers, identifiers
  \<open>uuid-a\<close>, \<open>uuid-aa\<close>, ..., a fixed clock, a \<open>delete\<close> that takes its argument as one
  identifier and rejects an identifier that is not in the store, a \<open>save_local\<close> that writes
  its two files (\<open>demo_save\<close>) or fails on a full disk (\<open>disk_full\<close>), and a \<open>load_local\<close>
  that reads back \<open>demo_store\<close>. \<open>demo_self\<close> is a store holding the initialization document,
  persisted, with one cached answer.
\<close>

definition delete_by_id :: "string \<Rightarrow> faiss \<Rightarrow> exn + faiss" where
  "delete_by_id document_id st =
     (if document_id \<in> set (map eid (entries st))
      then Inr (st\<lparr>entries := filter (\<lambda>e. eid e \<noteq> document_id) (entries st)\<rparr>)
      else Inl (Raise ValueError ''Some specified ids do not exist in the current store.''))"

definition demo_store :: faiss where
  "demo_store =
     \<lparr>index_d = 2,
      entries = [\<lparr>eid = ''uuid-0'', embedding = [23, 1],
                  doc = \<lparr>page_content = ''initialization document'',
                         metadata = [(''source'', PyStr ''initialization'')]\<rparr>\<rparr>]\<rparr>"

definition demo_save :: "faiss \<Rightarrow> files \<Rightarrow> exn option \<times> files" where
  "demo_save st fs = (None, AList.update ''index.pkl'' ''docstore'' (AList.update ''index.faiss'' ''vectors'' fs))"


definition demo_lib_with :: "(faiss \<Rightarrow> files \<Rightarrow> exn option \<times> files) \<Rightarrow> vs_lib" where
  "demo_lib_with sv =
     \<lparr>docs_lib = demo_doc_lib,
      embed_document = (\<lambda>t. Inr [real (length t), 1]),
      embed_query = (\<lambda>t. Inr [real (length t), 1]),
      uuid4 = (\<lambda>j. ''uuid-'' @ replicate (Suc j) (CHR ''a'')),
      strftime_now = ''20240101_120000'',
      faiss_delete = delete_by_id,
      save_local = sv,
      load_local = (\<lambda>fs. Inr demo_store)\<rparr>"

definition demo_vs_lib :: vs_lib where
  "demo_vs_lib = demo_lib_with demo_save"

definition demo_self :: VectorStore where
  "demo_self =
     \<lparr>persist_dir = ''data/vector_store'',
      doc_processor = \<lparr>text_splitter = \<lparr>chunk_size = 1000, chunk_overlap = 200\<rparr>\<rparr>,
      self_cache = \<lparr>cache = [(''q:kenya'', (PyStr ''answer'', Some 3600))], ttl = 3600\<rparr>,
      vector_store = demo_store,
      dir_files = [(''faiss_index'', ''IDX''), (''store.pkl'', ''PKL'')],
      backup_dirs = []\<rparr>"

definition demo_documents :: "document list" where
  "demo_documents = [\<lparr>page_content = ''Nairobi'', metadata = [(''source'', PyStr ''a.txt'')]\<rparr>]"

definition demo_snapshot :: "(string \<times> files) list" where
  "demo_snapshot = [(''backup_20240101_120000'', [(''faiss_index'', ''IDX''), (''store.pkl'', ''PKL'')])]"

definition demo_store_added :: faiss where
  "demo_store_added =
     \<lparr>index_d = 2,
      entries = [\<lparr>eid = ''uuid-0'', embedding = [23, 1],
                  doc = \<lparr>page_content = ''initialization document'',
                         metadata = [(''source'', PyStr ''initialization'')]\<rparr>\<rparr>,
                 \<lparr>eid = ''uuid-a'', embedding = [7, 1],
                  doc = \<lparr>page_content = ''Nairobi'',
                         metadata = [(''source'', PyStr ''a.txt''), (''start_index'', PyInt 0),
                                     (''chunk_id'', PyInt 0), (''chunk_hash'', PyStr ''sha256 of Nairobi''),
                                     (''chunk_size'', PyInt 7), (''total_chunks'', PyInt 1)]\<rparr>\<rparr>]\<rparr>"

text \<open>
  \<open>demo_persisted\<close> is what \<open>add_documents\<close> leaves when it runs on a \<open>VectorStore\<close> just
  created in an empty directory (\<open>demo_self\<close> without files) and saves with \<open>demo_save\<close>;
  \<open>demo_store_added2\<close> is its index after one more row. \<open>demo_store_ab\<close> is an index whose
  two rows carry the identifiers \<open>a\<close> and \<open>b\<close>.
\<close>

definition demo_store_added2 :: faiss where
  "demo_store_added2 =
     demo_store_added\<lparr>entries := entries demo_store_added @
       [\<lparr>eid = ''uuid-b'', embedding = [7, 1],
         doc = \<lparr>page_content = ''Nairobi'',
                metadata = [(''source'', PyStr ''a.txt''), (''start_index'', PyInt 0),
                            (''chunk_id'', PyInt 0), (''chunk_hash'', PyStr ''sha256 of Nairobi''),
                            (''chunk_size'', PyInt 7), (''total_chunks'', PyInt 1)]\<rparr>\<rparr>]\<rparr>"

definition demo_persisted :: VectorStore where
  "demo_persisted =
     demo_self\<lparr>vector_store := demo_store_added,
               dir_files := [(''index.faiss'', ''vectors''), (''index.pkl'', ''docstore'')],
               self_cache := \<lparr>cache = [], ttl = 3600\<rparr>\<rparr>"


section \<open>Properties\<close>

lemma map_of_update_same: "map_of (AList.update k v al) k = Some v"
  by (simp add: update_conv')

text \<open>
  C9. \<open>Cache.set\<close> called with \<open>ttl=0\<close> behaves as with \<open>ttl=None\<close>: the default is chosen by
  \<open>ttl or self.ttl\<close>, so the entry is stored with expiry \<open>now + 3600\<close> on a cache built by
  \<open>Cache.__init__\<close> (in general \<open>now + self.ttl\<close>), and it can be read back at once; it does
  not expire immediately.
\<close>

theorem cache_set_ttl_zero_uses_default:
  "Cache_set now c key v (Some 0) = Cache_set now c key v None
   \<and> map_of (cache (Cache_set now (Cache_init rows) key v (Some 0))) key = Some (v, Some (now + 3600))
   \<and> Cache_get now (Cache_set now (Cache_init rows) key v (Some 0)) key = Some v
   \<and> Cache_get (now + 3599) (Cache_set now (Cache_init rows) key v (Some 0)) key = Some v"
  by (simp add: Cache_set_def Cache_get_def Cache_init_def ttl_or_def diskcache_set_def
      diskcache_get_def map_of_update_same)

text \<open>
  C10. \<open>get_chunk_stats\<close> on the empty chunk list raises: the average divides by
  \<open>len(chunks) = 0\<close>, and the handler re-raises it as
  \<open>Exception("Error calculating chunk statistics: division by zero")\<close>; no dictionary is
  returned. (Had the division passed, \<open>max\<close> and \<open>min\<close> of the empty sequence would raise.)
\<close>

theorem get_chunk_stats_empty_raises:
  "get_chunk_stats [] = Inl (Raise Exception ''Error calculating chunk statistics: division by zero'')
   \<and> (\<nexists>d. get_chunk_stats [] = Inr d)
   \<and> (\<exists>e. py_max [] = Inl e) \<and> (\<exists>e. py_min [] = Inl e)"
  by (simp add: get_chunk_stats_def reraise_def and_then_def py_truediv_def py_max_def py_min_def)

lemma and_then_Inr: "and_then r f = Inr v \<longleftrightarrow> (\<exists>x. r = Inr x \<and> f x = Inr v)"
  by (cases r) (simp_all add: and_then_def)

lemma getitem_Inr: "getitem d k = Inr v \<longleftrightarrow> map_of d k = Some v"
  by (cases "map_of d k") (simp_all add: getitem_def)

lemma is_kenyan_domain_Inr:
  "is_kenyan_domain lib url = Inr b \<longleftrightarrow>
     (\<exists>netloc. urlparse_netloc lib url = Inr netloc
        \<and> b = (\<exists>tld \<in> set KENYA_DOMAINS. suffix tld (str_lower netloc)))"
proof (cases "urlparse_netloc lib url")
  case (Inl e)
  then show ?thesis by (simp add: is_kenyan_domain_def and_then_def)
next
  case (Inr n)
  then show ?thesis by (auto simp add: is_kenyan_domain_def and_then_def list_ex_iff)
qed

lemma kenyan_hit_iff:
  assumes "map_of r ''link'' = Some link" and "is_kenyan_domain lib link = Inr b"
  shows "kenyan_hit lib r = b"
proof -
  from assms(2) obtain netloc where n: "urlparse_netloc lib link = Inr netloc"
    and b: "b = (\<exists>tld \<in> set KENYA_DOMAINS. suffix tld (str_lower netloc))"
    unfolding is_kenyan_domain_Inr by blast
  show ?thesis unfolding kenyan_hit_def b using assms(1) n by simp
qed

lemma search_body_spec:
  assumes "search_body lib m acc r = Inr acc'"
  shows "acc' = (if kenyan_hit lib r \<and> int (length acc) < m then acc @ [result_of_hit r] else acc)"
proof -
  from assms obtain link b where link: "map_of r ''link'' = Some link"
    and b: "is_kenyan_domain lib link = Inr b"
    and rest: "(if b \<and> int (length acc) < m then
         and_then (getitem r ''title'') (\<lambda>title.
         and_then (getitem r ''link'') (\<lambda>link'.
         and_then (getitem r ''body'') (\<lambda>body.
           Inr (acc @ [[(''title'', title), (''link'', link'), (''snippet'', body)]]))))
       else Inr acc) = Inr acc'"
    unfolding search_body_def and_then_Inr getitem_Inr by blast
  have kh: "kenyan_hit lib r = b" by (rule kenyan_hit_iff [OF link b])
  show ?thesis
  proof (cases "b \<and> int (length acc) < m")
    case False
    with rest have "acc' = acc" by simp
    with False kh show ?thesis by simp
  next
    case True
    with rest have "and_then (getitem r ''title'') (\<lambda>title.
         and_then (getitem r ''link'') (\<lambda>link'.
         and_then (getitem r ''body'') (\<lambda>body.
           Inr (acc @ [[(''title'', title), (''link'', link'), (''snippet'', body)]])))) = Inr acc'"
      by simp
    then obtain title link' body where t: "map_of r ''title'' = Some title"
      and l': "map_of r ''link'' = Some link'"
      and bd: "map_of r ''body'' = Some body"
      and acc': "acc' = acc @ [[(''title'', title), (''link'', link'), (''snippet'', body)]]"
      unfolding and_then_Inr getitem_Inr by auto
    have "result_of_hit r = [(''title'', title), (''link'', link'), (''snippet'', body)]"
      by (simp add: result_of_hit_def t bd l')
    with acc' True kh show ?thesis by simp
  qed
qed

lemma search_loop_spec:
  "search_loop lib m hits acc = Inr res \<Longrightarrow>
     res = acc @ map result_of_hit (take (nat m - length acc) (filter (kenyan_hit lib) hits))"
proof (induction hits arbitrary: acc)
  case Nil
  then show ?case by simp
next
  case (Cons r rs)
  from Cons.prems obtain acc' where body: "search_body lib m acc r = Inr acc'"
    and loop: "search_loop lib m rs acc' = Inr res"
    by (cases "search_body lib m acc r") simp_all
  note IH = Cons.IH [OF loop]
  show ?case
  proof (cases "kenyan_hit lib r \<and> int (length acc) < m")
    case True
    with search_body_spec [OF body] have acc': "acc' = acc @ [result_of_hit r]" by simp
    from True have "nat m - length acc = Suc (nat m - Suc (length acc))" by linarith
    with IH acc' True show ?thesis by simp
  next
    case False
    with search_body_spec [OF body] have acc': "acc' = acc" by simp
    show ?thesis
    proof (cases "kenyan_hit lib r")
      case True
      with False have "nat m - length acc = 0" by linarith
      with IH acc' show ?thesis by simp
    next
      case False
      with IH acc' show ?thesis by simp
    qed
  qed
qed

lemma demo_netloc:
  "plain_netloc ''https://www.KRA.go.ke/services'' = Inr ''www.KRA.go.ke''"
  "plain_netloc ''https://example.com/ke'' = Inr ''example.com''"
  "plain_netloc ''http://uonbi.ac.ke'' = Inr ''uonbi.ac.ke''"
  by (simp_all add: plain_netloc_def url_after_scheme_def)

lemma demo_kenyan:
  "is_kenyan_domain demo_web ''https://www.KRA.go.ke/services'' = Inr True"
  "is_kenyan_domain demo_web ''https://example.com/ke'' = Inr False"
  "is_kenyan_domain demo_web ''http://uonbi.ac.ke'' = Inr True"
  by (simp_all add: is_kenyan_domain_def demo_web_def demo_netloc and_then_def str_lower_def
      lower_char_def KENYA_DOMAINS_def suffix_def)

lemma demo_search:
  "search demo_web ''kra'' None =
     Inr [[(''title'', ''KRA''), (''link'', ''https://www.KRA.go.ke/services''), (''snippet'', ''Tax'')],
          [(''title'', ''UoN''), (''link'', ''http://uonbi.ac.ke''), (''snippet'', ''University'')]]"
proof -
  have "ddgs_text demo_web ''kra'' 20 = Inr demo_hits"
    by (simp add: demo_web_def demo_hits_def)
  then show ?thesis
    by (simp add: search_def demo_hits_def and_then_def search_body_def getitem_def demo_kenyan)
qed

text \<open>
  C8. Whenever the fallback web search returns, it returns at most \<open>max_results\<close> results
  (5 when the argument is omitted); every returned link has a netloc that, lower-cased, ends
  with one of \<open>.ke\<close>, \<open>co.ke\<close>, \<open>ac.ke\<close>, \<open>go.ke\<close>, \<open>or.ke\<close>; and the results are the first
  \<open>max_results\<close> matching hits of the 20 requested from the provider, in the provider's order,
  the other hits being dropped.
\<close>

theorem search_kenyan_capped:
  assumes "search lib query max_results = Inr results"
  shows "length results \<le> nat (case max_results of None \<Rightarrow> 5 | Some m \<Rightarrow> m)
     \<and> (\<forall>r \<in> set results. \<exists>link netloc tld.
           map_of r ''link'' = Some link \<and> urlparse_netloc lib link = Inr netloc
           \<and> tld \<in> set KENYA_DOMAINS \<and> suffix tld (str_lower netloc))
     \<and> (\<exists>hits. ddgs_text lib query 20 = Inr hits
           \<and> results = map result_of_hit
                (take (nat (case max_results of None \<Rightarrow> 5 | Some m \<Rightarrow> m))
                   (filter (kenyan_hit lib) hits)))"
proof -
  define m where "m = (case max_results of None \<Rightarrow> (5::int) | Some m \<Rightarrow> m)"
  from assms obtain hits where hits: "ddgs_text lib query 20 = Inr hits"
    and loop: "search_loop lib m hits [] = Inr results"
    unfolding search_def Let_def and_then_Inr m_def by blast
  from search_loop_spec [OF loop]
  have res: "results = map result_of_hit (take (nat m) (filter (kenyan_hit lib) hits))"
    by simp
  have len: "length results \<le> nat m"
    by (simp add: res)
  have ken: "\<exists>link netloc tld.
           map_of r ''link'' = Some link \<and> urlparse_netloc lib link = Inr netloc
           \<and> tld \<in> set KENYA_DOMAINS \<and> suffix tld (str_lower netloc)" if "r \<in> set results" for r
  proof -
    from that res obtain h where h: "h \<in> set (take (nat m) (filter (kenyan_hit lib) hits))"
      and r: "r = result_of_hit h" by auto
    from h have "h \<in> set (filter (kenyan_hit lib) hits)" by (rule in_set_takeD)
    then have "kenyan_hit lib h" by simp
    then obtain link netloc tld where k: "map_of h ''link'' = Some link"
      "urlparse_netloc lib link = Inr netloc" "tld \<in> set KENYA_DOMAINS"
      "suffix tld (str_lower netloc)"
      unfolding kenyan_hit_def by blast
    have "map_of r ''link'' = Some link"
      by (simp add: r result_of_hit_def k(1))
    with k show ?thesis by blast
  qed
  have "\<forall>r \<in> set results. \<exists>link netloc tld.
           map_of r ''link'' = Some link \<and> urlparse_netloc lib link = Inr netloc
           \<and> tld \<in> set KENYA_DOMAINS \<and> suffix tld (str_lower netloc)"
    using ken by blast
  moreover have "\<exists>hits. ddgs_text lib query 20 = Inr hits
           \<and> results = map result_of_hit (take (nat m) (filter (kenyan_hit lib) hits))"
    using hits res by blast
  ultimately show ?thesis using len unfolding m_def by simp
qed

theorem search_kenyan_capped_witness:
  "search demo_web ''kra'' None =
     Inr [[(''title'', ''KRA''), (''link'', ''https://www.KRA.go.ke/services''), (''snippet'', ''Tax'')],
          [(''title'', ''UoN''), (''link'', ''http://uonbi.ac.ke''), (''snippet'', ''University'')]]
   \<and> (\<exists>hits. ddgs_text demo_web ''kra'' 20 = Inr hits
         \<and> [[(''title'', ''KRA''), (''link'', ''https://www.KRA.go.ke/services''), (''snippet'', ''Tax'')],
            [(''title'', ''UoN''), (''link'', ''http://uonbi.ac.ke''), (''snippet'', ''University'')]]
           = map result_of_hit (take 5 (filter (kenyan_hit demo_web) hits)))"
  using search_kenyan_capped [OF demo_search] demo_search by simp

lemma reraise_Inr: "reraise p r = Inr v \<longleftrightarrow> r = Inr v"
  by (cases r) (simp_all add: reraise_def)








subsection \<open>The vector store: how its methods run\<close>

lemma create_backup_keeps:
  assumes "create_backup lib self = (r, self1)"
  shows "vector_store self1 = vector_store self" "dir_files self1 = dir_files self"
    "self_cache self1 = self_cache self" "doc_processor self1 = doc_processor self"
    "persist_dir self1 = persist_dir self"
  using assms
  by (auto simp: create_backup_def Let_def split: option.splits)

lemma create_backup_snapshot:
  assumes "create_backup lib self = (Inr msg, self1)"
    and "map_of (dir_files self) ''faiss_index'' = Some ix"
  shows "\<exists>st dir. map_of (dir_files self) ''store.pkl'' = Some st
      \<and> map_of (backup_dirs self1) (''backup_'' @ strftime_now lib) = Some dir
      \<and> map_of dir ''faiss_index'' = Some ix \<and> map_of dir ''store.pkl'' = Some st"
  using assms
  by (auto simp: create_backup_def Let_def update_conv' split: option.splits)

lemma save_store_keeps:
  assumes "save_store lib self = (err, self2)"
  shows "vector_store self2 = vector_store self" "backup_dirs self2 = backup_dirs self"
    "self_cache self2 = self_cache self"
    "(err, dir_files self2) = save_local lib (vector_store self) (dir_files self)"
  using assms by (auto simp: save_store_def split: prod.splits)

lemma clear_cache_keeps:
  "vector_store (clear_cache self) = vector_store self"
  "dir_files (clear_cache self) = dir_files self"
  "backup_dirs (clear_cache self) = backup_dirs self"
  "cache (self_cache (clear_cache self)) = []"
  by (simp_all add: clear_cache_def diskcache_clear_def)

text \<open>The runs of \<open>add_documents\<close>, one per exit.\<close>

lemma add_documents_cases:
  assumes "add_documents lib documents self = (r, self')"
  obtains
    (chunking) e where "chunk_documents (docs_lib lib) (doc_processor self) documents = Inl e"
      "r = Inl (wrap ''Error adding documents: '' e)" "self' = self"
  | (backup) chunks e where "chunk_documents (docs_lib lib) (doc_processor self) documents = Inr chunks"
      "create_backup lib self = (Inl e, self')" "r = Inl (wrap ''Error adding documents: '' e)"
  | (no_chunks) msg where "chunk_documents (docs_lib lib) (doc_processor self) documents = Inr []"
      "create_backup lib self = (Inr msg, self')" "r = Inr ()"
  | (adding) chunks msg e where "chunk_documents (docs_lib lib) (doc_processor self) documents = Inr chunks"
      "chunks \<noteq> []" "create_backup lib self = (Inr msg, self')"
      "FAISS_add_texts lib (map page_content chunks) (map metadata chunks) (vector_store self') = Inl e"
      "r = Inl (wrap ''Error adding documents: '' e)"
  | (saving) chunks msg self1 vs e where "chunk_documents (docs_lib lib) (doc_processor self) documents = Inr chunks"
      "chunks \<noteq> []" "create_backup lib self = (Inr msg, self1)"
      "FAISS_add_texts lib (map page_content chunks) (map metadata chunks) (vector_store self1) = Inr vs"
      "save_store lib (self1\<lparr>vector_store := vs\<rparr>) = (Some e, self')"
      "r = Inl (wrap ''Error adding documents: '' e)"
  | (finished) chunks msg self1 vs self2 where "chunk_documents (docs_lib lib) (doc_processor self) documents = Inr chunks"
      "chunks \<noteq> []" "create_backup lib self = (Inr msg, self1)"
      "FAISS_add_texts lib (map page_content chunks) (map metadata chunks) (vector_store self1) = Inr vs"
      "save_store lib (self1\<lparr>vector_store := vs\<rparr>) = (None, self2)"
      "r = Inr ()" "self' = clear_cache self2"
proof (cases "chunk_documents (docs_lib lib) (doc_processor self) documents")
  case (Inl e)
  with assms have "r = Inl (wrap ''Error adding documents: '' e)" "self' = self"
    by (simp_all add: add_documents_def)
  with Inl show ?thesis by (rule chunking)
next
  case (Inr chunks)
  obtain b self1 where cb: "create_backup lib self = (b, self1)" by (cases "create_backup lib self")
  show ?thesis
  proof (cases b)
    case (Inl e)
    with assms Inr cb have "r = Inl (wrap ''Error adding documents: '' e)" "self' = self1"
      by (simp_all add: add_documents_def Let_def)
    with Inr cb Inl show ?thesis using backup by simp
  next
    case msg: (Inr msg)
    show ?thesis
    proof (cases "chunks = []")
      case True
      with assms Inr cb msg have r: "r = Inr ()" and s: "self' = self1"
        by (simp_all add: add_documents_def Let_def)
      show ?thesis
      proof (rule no_chunks)
        show "chunk_documents (docs_lib lib) (doc_processor self) documents = Inr []"
          using Inr True by simp
        show "create_backup lib self = (Inr msg, self')" using cb msg s by simp
        show "r = Inr ()" by (rule r)
      qed
    next
      case False
      show ?thesis
      proof (cases "FAISS_add_texts lib (map page_content chunks) (map metadata chunks) (vector_store self1)")
        case (Inl e)
        with assms Inr cb msg False have "r = Inl (wrap ''Error adding documents: '' e)" "self' = self1"
          by (simp_all add: add_documents_def Let_def)
        with Inr cb msg False Inl show ?thesis using adding by simp
      next
        case vs: (Inr vs)
        obtain err self2 where sv: "save_store lib (self1\<lparr>vector_store := vs\<rparr>) = (err, self2)"
          by (cases "save_store lib (self1\<lparr>vector_store := vs\<rparr>)")
        show ?thesis
        proof (cases err)
          case None
          with assms Inr cb msg False vs sv have "r = Inr ()" "self' = clear_cache self2"
            by (simp_all add: add_documents_def Let_def)
          with Inr cb msg False vs sv None show ?thesis using finished by simp
        next
          case (Some e)
          with assms Inr cb msg False vs sv have "r = Inl (wrap ''Error adding documents: '' e)" "self' = self2"
            by (simp_all add: add_documents_def Let_def)
          with Inr cb msg False vs sv Some show ?thesis using saving by simp
        qed
      qed
    qed
  qed
qed

text \<open>The runs of \<open>delete_document\<close>.\<close>

lemma delete_document_cases:
  assumes "delete_document lib document_id self = (r, self')"
  obtains
    (backup) e where "create_backup lib self = (Inl e, self')"
      "r = Inl (wrap ''Error deleting document: '' e)"
  | (deleting) msg e where "create_backup lib self = (Inr msg, self')"
      "faiss_delete lib document_id (vector_store self') = Inl e"
      "r = Inl (wrap ''Error deleting document: '' e)"
  | (saving) msg self1 vs e where "create_backup lib self = (Inr msg, self1)"
      "faiss_delete lib document_id (vector_store self1) = Inr vs"
      "save_store lib (self1\<lparr>vector_store := vs\<rparr>) = (Some e, self')"
      "r = Inl (wrap ''Error deleting document: '' e)"
  | (finished) msg self1 vs self2 where "create_backup lib self = (Inr msg, self1)"
      "faiss_delete lib document_id (vector_store self1) = Inr vs"
      "save_store lib (self1\<lparr>vector_store := vs\<rparr>) = (None, self2)"
      "r = Inr ()" "self' = clear_cache self2"
proof -
  obtain b self1 where cb: "create_backup lib self = (b, self1)" by (cases "create_backup lib self")
  show ?thesis
  proof (cases b)
    case (Inl e)
    with assms cb have "r = Inl (wrap ''Error deleting document: '' e)" "self' = self1"
      by (simp_all add: delete_document_def)
    with cb Inl show ?thesis using backup by simp
  next
    case msg: (Inr msg)
    show ?thesis
    proof (cases "faiss_delete lib document_id (vector_store self1)")
      case (Inl e)
      with assms cb msg have "r = Inl (wrap ''Error deleting document: '' e)" "self' = self1"
        by (simp_all add: delete_document_def)
      with cb msg Inl show ?thesis using deleting by simp
    next
      case vs: (Inr vs)
      obtain err self2 where sv: "save_store lib (self1\<lparr>vector_store := vs\<rparr>) = (err, self2)"
        by (cases "save_store lib (self1\<lparr>vector_store := vs\<rparr>)")
      show ?thesis
      proof (cases err)
        case None
        with assms cb msg vs sv have "r = Inr ()" "self' = clear_cache self2"
          by (simp_all add: delete_document_def)
        with cb msg vs sv None show ?thesis using finished by simp
      next
        case (Some e)
        with assms cb msg vs sv have "r = Inl (wrap ''Error deleting document: '' e)" "self' = self2"
          by (simp_all add: delete_document_def)
        with cb msg vs sv Some show ?thesis using saving by simp
      qed
    qed
  qed
qed




lemma create_new_store_eq:
  "create_new_store lib =
     (case embed_document lib ''initialization document'' of
        Inl e \<Rightarrow> Inl e
      | Inr v \<Rightarrow>
          Inr \<lparr>index_d = length v,
               entries = [\<lparr>eid = uuid4 lib 0, embedding = v,
                           doc = \<lparr>page_content = ''initialization document'',
                                  metadata = [(''source'', PyStr ''initialization'')]\<rparr>\<rparr>]\<rparr>)"
  by (simp add: create_new_store_def FAISS_from_texts_def and_then_def faiss_add_def
      split: sum.splits)

subsection \<open>The vector store on the concrete library\<close>

lemma demo_lib_simps:
  "docs_lib (demo_lib_with sv) = demo_doc_lib"
  "embed_document (demo_lib_with sv) t = Inr [real (length t), 1]"
  "embed_query (demo_lib_with sv) t = Inr [real (length t), 1]"
  "uuid4 (demo_lib_with sv) j = ''uuid-'' @ replicate (Suc j) (CHR ''a'')"
  "strftime_now (demo_lib_with sv) = ''20240101_120000''"
  "faiss_delete (demo_lib_with sv) = delete_by_id"
  "save_local (demo_lib_with sv) = sv"
  "load_local (demo_lib_with sv) fs = Inr demo_store"
  by (simp_all add: demo_lib_with_def)

lemma demo_chunks:
  "chunk_documents demo_doc_lib (doc_processor demo_self) demo_documents =
     Inr [\<lparr>page_content = ''Nairobi'',
           metadata = [(''source'', PyStr ''a.txt''), (''start_index'', PyInt 0),
                       (''chunk_id'', PyInt 0), (''chunk_hash'', PyStr ''sha256 of Nairobi''),
                       (''chunk_size'', PyInt 7), (''total_chunks'', PyInt 1)]\<rparr>]"
  by (simp add: chunk_documents_def demo_self_def demo_documents_def demo_doc_lib_def
      window_split_def numeral_eq_Suc and_then_def reraise_def dict_update_def generate_chunk_hash_def)

lemma demo_no_chunks:
  "chunk_documents demo_doc_lib (doc_processor demo_self) [] = Inr []"
  by (simp add: chunk_documents_def demo_doc_lib_def window_split_def and_then_def reraise_def)

lemma demo_backup:
  "create_backup (demo_lib_with sv) demo_self =
     (Inr ''Backup created at data/vector_store/backups/backup_20240101_120000'',
      demo_self\<lparr>backup_dirs := demo_snapshot\<rparr>)"
  by (simp add: create_backup_def demo_lib_simps demo_self_def demo_snapshot_def Let_def
      backup_dir_def path_join_def)

lemma demo_add_texts:
  "FAISS_add_texts (demo_lib_with sv) [''Nairobi'']
     [[(''source'', PyStr ''a.txt''), (''start_index'', PyInt 0),
       (''chunk_id'', PyInt 0), (''chunk_hash'', PyStr ''sha256 of Nairobi''),
       (''chunk_size'', PyInt 7), (''total_chunks'', PyInt 1)]] demo_store = Inr demo_store_added"
  by (simp add: FAISS_add_texts_def faiss_add_def demo_lib_simps and_then_def demo_store_def
      demo_store_added_def)

lemma demo_self_simps:
  "vector_store demo_self = demo_store"
  "dir_files demo_self = [(''faiss_index'', ''IDX''), (''store.pkl'', ''PKL'')]"
  "self_cache demo_self = \<lparr>cache = [(''q:kenya'', (PyStr ''answer'', Some 3600))], ttl = 3600\<rparr>"
  "backup_dirs demo_self = []"
  "persist_dir demo_self = ''data/vector_store''"
  by (simp_all add: demo_self_def)

lemma demo_add_ok:
  "add_documents demo_vs_lib demo_documents demo_self =
     (Inr (),
      demo_self\<lparr>backup_dirs := demo_snapshot, vector_store := demo_store_added,
                dir_files := [(''faiss_index'', ''IDX''), (''store.pkl'', ''PKL''),
                              (''index.faiss'', ''vectors''), (''index.pkl'', ''docstore'')],
                self_cache := \<lparr>cache = [], ttl = 3600\<rparr>\<rparr>)"
  by (simp add: add_documents_def demo_vs_lib_def demo_lib_simps demo_chunks demo_backup demo_self_simps
      demo_add_texts save_store_def demo_save_def clear_cache_def diskcache_clear_def)
     (simp add: demo_self_def)?


lemma demo_add_nothing:
  "add_documents demo_vs_lib [] demo_self = (Inr (), demo_self\<lparr>backup_dirs := demo_snapshot\<rparr>)"
  by (simp add: add_documents_def demo_vs_lib_def demo_lib_simps demo_no_chunks demo_backup demo_self_simps)

lemma demo_delete_ok:
  "delete_document demo_vs_lib ''uuid-0'' demo_self =
     (Inr (),
      demo_self\<lparr>backup_dirs := demo_snapshot, vector_store := \<lparr>index_d = 2, entries = []\<rparr>,
                dir_files := [(''faiss_index'', ''IDX''), (''store.pkl'', ''PKL''),
                              (''index.faiss'', ''vectors''), (''index.pkl'', ''docstore'')],
                self_cache := \<lparr>cache = [], ttl = 3600\<rparr>\<rparr>)"
  by (simp add: delete_document_def demo_vs_lib_def demo_lib_simps demo_backup demo_self_simps
      save_store_def demo_save_def clear_cache_def diskcache_clear_def delete_by_id_def)
     (simp add: demo_self_def demo_store_def)?


lemma demo_restore:
  "restore_backup demo_vs_lib ''20240101_120000''
       (demo_self\<lparr>backup_dirs := demo_snapshot, vector_store := demo_store_added\<rparr>) =
     (Inr ''Restored from backup 20240101_120000'',
      demo_self\<lparr>backup_dirs := demo_snapshot, vector_store := demo_store\<rparr>)"
  by (simp add: restore_backup_def demo_vs_lib_def demo_lib_simps demo_snapshot_def Let_def
      load_or_create_store_def demo_self_simps)
     (simp add: demo_self_def)?

lemma demo_load_or_create:
  "load_or_create_store demo_vs_lib [] =
     Inr \<lparr>index_d = 2,
          entries = [\<lparr>eid = ''uuid-a'', embedding = [23, 1],
                      doc = \<lparr>page_content = ''initialization document'',
                             metadata = [(''source'', PyStr ''initialization'')]\<rparr>\<rparr>]\<rparr>"
  by (simp add: load_or_create_store_def create_new_store_def FAISS_from_texts_def
      demo_vs_lib_def demo_lib_simps and_then_def faiss_add_def)

subsection \<open>The claims about the vector store\<close>




text \<open>When \<open>faiss_index\<close> exists, a change is preceded by the copy of the two files.\<close>

lemma copied_before_mutation:
  assumes "map_of (dir_files self) ''faiss_index'' \<noteq> None"
  shows "(add_documents lib documents self = (r, self')
            \<and> (vector_store self' \<noteq> vector_store self \<or> dir_files self' \<noteq> dir_files self)
          \<longrightarrow> index_and_store_file_copied lib self self')
       \<and> (delete_document lib document_id self = (r, self')
            \<and> (vector_store self' \<noteq> vector_store self \<or> dir_files self' \<noteq> dir_files self)
          \<longrightarrow> index_and_store_file_copied lib self self')"
proof -
  from assms obtain ix where ix: "map_of (dir_files self) ''faiss_index'' = Some ix" by blast
  have snap: "index_and_store_file_copied lib self self'"
    if cb: "create_backup lib self = (Inr msg, self1)" and same: "backup_dirs self' = backup_dirs self1"
    for msg self1
  proof -
    from create_backup_snapshot [OF cb ix] obtain st dir where
      "map_of (dir_files self) ''store.pkl'' = Some st"
      "map_of (backup_dirs self1) (''backup_'' @ strftime_now lib) = Some dir"
      "map_of dir ''faiss_index'' = Some ix" "map_of dir ''store.pkl'' = Some st"
      by blast
    with ix cb same create_backup_keeps(1,2) [OF cb] show ?thesis
      unfolding index_and_store_file_copied_def by blast
  qed
  have add: "index_and_store_file_copied lib self self'"
    if run: "add_documents lib documents self = (r, self')"
      and changed: "vector_store self' \<noteq> vector_store self \<or> dir_files self' \<noteq> dir_files self"
    using run
  proof (cases rule: add_documents_cases)
    case (chunking e)
    with changed show ?thesis by simp
  next
    case (backup chunks e)
    with changed create_backup_keeps(1,2) [OF backup(2)] show ?thesis by simp
  next
    case (no_chunks msg)
    with changed create_backup_keeps(1,2) [OF no_chunks(2)] show ?thesis by simp
  next
    case (adding chunks msg e)
    with changed create_backup_keeps(1,2) [OF adding(3)] show ?thesis by simp
  next
    case (saving chunks msg self1 vs e)
    from save_store_keeps(2) [OF saving(5)] have "backup_dirs self' = backup_dirs self1" by simp
    with saving(3) show ?thesis by (rule snap)
  next
    case (finished chunks msg self1 vs self2)
    from save_store_keeps(2) [OF finished(5)] finished(7)
    have "backup_dirs self' = backup_dirs self1" by (simp add: clear_cache_keeps)
    with finished(3) show ?thesis by (rule snap)
  qed
  have del: "index_and_store_file_copied lib self self'"
    if run: "delete_document lib document_id self = (r, self')"
      and changed: "vector_store self' \<noteq> vector_store self \<or> dir_files self' \<noteq> dir_files self"
    using run
  proof (cases rule: delete_document_cases)
    case (backup e)
    with changed create_backup_keeps(1,2) [OF backup(1)] show ?thesis by simp
  next
    case (deleting msg e)
    with changed create_backup_keeps(1,2) [OF deleting(1)] show ?thesis by simp
  next
    case (saving msg self1 vs e)
    from save_store_keeps(2) [OF saving(3)] have "backup_dirs self' = backup_dirs self1" by simp
    with saving(1) show ?thesis by (rule snap)
  next
    case (finished msg self1 vs self2)
    from save_store_keeps(2) [OF finished(3)] finished(5)
    have "backup_dirs self' = backup_dirs self1" by (simp add: clear_cache_keeps)
    with finished(1) show ?thesis by (rule snap)
  qed
  from add del show ?thesis by blast
qed

text \<open>When \<open>faiss_index\<close> does not exist, there is no backup and the methods go on.\<close>

lemma no_index_file_no_backup:
  assumes "map_of (dir_files self) ''faiss_index'' = None"
  shows "create_backup lib self = (Inr ''No vector store to backup'', self)
       \<and> backup_dirs (snd (add_documents lib documents self)) = backup_dirs self
       \<and> backup_dirs (snd (delete_document lib document_id self)) = backup_dirs self"
proof -
  have cb: "create_backup lib self = (Inr ''No vector store to backup'', self)"
    using assms by (simp add: create_backup_def)
  obtain r1 s1 where a: "add_documents lib documents self = (r1, s1)"
    by (cases "add_documents lib documents self")
  then have "backup_dirs s1 = backup_dirs self"
  proof (cases rule: add_documents_cases)
    case (saving chunks msg self1 vs e)
    with cb save_store_keeps(2) [OF saving(5)] show ?thesis by simp
  next
    case (finished chunks msg self1 vs self2)
    with cb save_store_keeps(2) [OF finished(5)] show ?thesis by (simp add: clear_cache_keeps)
  qed (use cb in simp_all)
  moreover
  obtain r2 s2 where d: "delete_document lib document_id self = (r2, s2)"
    by (cases "delete_document lib document_id self")
  then have "backup_dirs s2 = backup_dirs self"
  proof (cases rule: delete_document_cases)
    case (saving msg self1 vs e)
    with cb save_store_keeps(2) [OF saving(3)] show ?thesis by simp
  next
    case (finished msg self1 vs self2)
    with cb save_store_keeps(2) [OF finished(3)] show ?thesis by (simp add: clear_cache_keeps)
  qed (use cb in simp_all)
  ultimately show ?thesis using cb a d by simp
qed

text \<open>
  What \<open>create_backup\<close> does for the two mutating methods. It looks for the file
  \<open>faiss_index\<close>, and the snapshot depends on it alone. When \<open>faiss_index\<close> exists in
  \<open>persist_dir\<close>, an \<open>add_documents\<close> or \<open>delete_document\<close> that changes the index in memory or
  the files of \<open>persist_dir\<close> has first copied \<open>faiss_index\<close> and \<open>store.pkl\<close>, as they were
  before the call, into the backup directory named by the clock (so \<open>store.pkl\<close> existed
  too), and that directory is still there afterwards. When \<open>faiss_index\<close> does not exist,
  \<open>create_backup\<close> returns \<open>No vector store to backup\<close> and changes nothing, and
  \<open>add_documents\<close> and \<open>delete_document\<close> go on without a snapshot: the backup directories
  stay as they were.
\<close>

theorem snapshot_exactly_when_index_file_exists:
  "(map_of (dir_files self) ''faiss_index'' \<noteq> None
      \<and> add_documents lib documents self = (r, self')
      \<and> (vector_store self' \<noteq> vector_store self \<or> dir_files self' \<noteq> dir_files self)
    \<longrightarrow> index_and_store_file_copied lib self self')
   \<and> (map_of (dir_files self) ''faiss_index'' \<noteq> None
      \<and> delete_document lib document_id self = (r, self')
      \<and> (vector_store self' \<noteq> vector_store self \<or> dir_files self' \<noteq> dir_files self)
    \<longrightarrow> index_and_store_file_copied lib self self')
   \<and> (map_of (dir_files self) ''faiss_index'' = None
    \<longrightarrow> create_backup lib self = (Inr ''No vector store to backup'', self)
        \<and> backup_dirs (snd (add_documents lib documents self)) = backup_dirs self
        \<and> backup_dirs (snd (delete_document lib document_id self)) = backup_dirs self)"
proof -
  have one: "index_and_store_file_copied lib self self'"
    if "map_of (dir_files self) ''faiss_index'' \<noteq> None"
      "add_documents lib documents self = (r, self')"
      "vector_store self' \<noteq> vector_store self \<or> dir_files self' \<noteq> dir_files self"
    using copied_before_mutation [OF that(1), of lib documents r self' document_id] that(2,3)
    by simp
  have two: "index_and_store_file_copied lib self self'"
    if "map_of (dir_files self) ''faiss_index'' \<noteq> None"
      "delete_document lib document_id self = (r, self')"
      "vector_store self' \<noteq> vector_store self \<or> dir_files self' \<noteq> dir_files self"
    using copied_before_mutation [OF that(1), of lib documents r self' document_id] that(2,3)
    by simp
  have three: "create_backup lib self = (Inr ''No vector store to backup'', self)
        \<and> backup_dirs (snd (add_documents lib documents self)) = backup_dirs self
        \<and> backup_dirs (snd (delete_document lib document_id self)) = backup_dirs self"
    if "map_of (dir_files self) ''faiss_index'' = None"
    using that by (rule no_index_file_no_backup)
  from one two three show ?thesis by blast
qed

lemma demo_fresh_add:
  "add_documents demo_vs_lib demo_documents (demo_self\<lparr>dir_files := []\<rparr>) =
     (Inr (),
      demo_self\<lparr>vector_store := demo_store_added,
                dir_files := [(''index.faiss'', ''vectors''), (''index.pkl'', ''docstore'')],
                self_cache := \<lparr>cache = [], ttl = 3600\<rparr>\<rparr>)"
  by (simp add: add_documents_def demo_vs_lib_def demo_lib_simps demo_chunks [simplified demo_self_def, simplified]
      demo_add_texts save_store_def demo_save_def clear_cache_def diskcache_clear_def
      create_backup_def demo_self_def)

lemma demo_second_add:
  "add_documents (demo_vs_lib\<lparr>uuid4 := \<lambda>j. ''uuid-b''\<rparr>) demo_documents demo_persisted =
     (Inr (), demo_persisted\<lparr>vector_store := demo_store_added2\<rparr>)"
proof -
  have c: "chunk_documents demo_doc_lib (doc_processor demo_persisted) demo_documents =
     Inr [\<lparr>page_content = ''Nairobi'',
           metadata = [(''source'', PyStr ''a.txt''), (''start_index'', PyInt 0),
                       (''chunk_id'', PyInt 0), (''chunk_hash'', PyStr ''sha256 of Nairobi''),
                       (''chunk_size'', PyInt 7), (''total_chunks'', PyInt 1)]\<rparr>]"
    using demo_chunks by (simp add: demo_persisted_def)
  have b: "create_backup (demo_vs_lib\<lparr>uuid4 := \<lambda>j. ''uuid-b''\<rparr>) demo_persisted =
     (Inr ''No vector store to backup'', demo_persisted)"
    by (simp add: create_backup_def demo_persisted_def)
  have a: "FAISS_add_texts (demo_vs_lib\<lparr>uuid4 := \<lambda>j. ''uuid-b''\<rparr>) [''Nairobi'']
     [[(''source'', PyStr ''a.txt''), (''start_index'', PyInt 0),
       (''chunk_id'', PyInt 0), (''chunk_hash'', PyStr ''sha256 of Nairobi''),
       (''chunk_size'', PyInt 7), (''total_chunks'', PyInt 1)]] demo_store_added = Inr demo_store_added2"
    by (simp add: FAISS_add_texts_def faiss_add_def demo_vs_lib_def demo_lib_simps and_then_def
        demo_store_added_def demo_store_added2_def)
  have v: "vector_store demo_persisted = demo_store_added"
    "dir_files demo_persisted = [(''index.faiss'', ''vectors''), (''index.pkl'', ''docstore'')]"
    "self_cache demo_persisted = \<lparr>cache = [], ttl = 3600\<rparr>"
    by (simp_all add: demo_persisted_def)
  have d: "docs_lib (demo_vs_lib\<lparr>uuid4 := \<lambda>j. ''uuid-b''\<rparr>) = demo_doc_lib"
    "save_local (demo_vs_lib\<lparr>uuid4 := \<lambda>j. ''uuid-b''\<rparr>) = demo_save"
    by (simp_all add: demo_vs_lib_def demo_lib_simps)
  show ?thesis
    by (simp add: add_documents_def d c b a v save_store_def demo_save_def clear_cache_def
        diskcache_clear_def)
       (simp add: demo_persisted_def demo_self_def)?
qed

theorem snapshot_exactly_when_index_file_exists_witness:
  "map_of (dir_files demo_self) ''faiss_index'' = Some ''IDX''
   \<and> index_and_store_file_copied demo_vs_lib demo_self
       (demo_self\<lparr>backup_dirs := demo_snapshot, vector_store := demo_store_added,
                dir_files := [(''faiss_index'', ''IDX''), (''store.pkl'', ''PKL''),
                              (''index.faiss'', ''vectors''), (''index.pkl'', ''docstore'')],
                self_cache := \<lparr>cache = [], ttl = 3600\<rparr>\<rparr>)
   \<and> index_and_store_file_copied demo_vs_lib demo_self
       (demo_self\<lparr>backup_dirs := demo_snapshot, vector_store := \<lparr>index_d = 2, entries = []\<rparr>,
                dir_files := [(''faiss_index'', ''IDX''), (''store.pkl'', ''PKL''),
                              (''index.faiss'', ''vectors''), (''index.pkl'', ''docstore'')],
                self_cache := \<lparr>cache = [], ttl = 3600\<rparr>\<rparr>)
   \<and> map_of (dir_files demo_persisted) ''faiss_index'' = None
   \<and> create_backup demo_vs_lib demo_persisted = (Inr ''No vector store to backup'', demo_persisted)
   \<and> backup_dirs (snd (add_documents demo_vs_lib demo_documents demo_persisted)) = []"
proof -
  have ix: "map_of (dir_files demo_self) ''faiss_index'' = Some ''IDX''"
    by (simp add: demo_self_simps)
  then have ex: "map_of (dir_files demo_self) ''faiss_index'' \<noteq> None" by simp
  have ch1: "vector_store (demo_self\<lparr>backup_dirs := demo_snapshot, vector_store := demo_store_added,
                dir_files := [(''faiss_index'', ''IDX''), (''store.pkl'', ''PKL''),
                              (''index.faiss'', ''vectors''), (''index.pkl'', ''docstore'')],
                self_cache := \<lparr>cache = [], ttl = 3600\<rparr>\<rparr>) \<noteq> vector_store demo_self"
    by (simp add: demo_self_simps demo_store_def demo_store_added_def)
  have ch2: "vector_store (demo_self\<lparr>backup_dirs := demo_snapshot, vector_store := \<lparr>index_d = 2, entries = []\<rparr>,
                dir_files := [(''faiss_index'', ''IDX''), (''store.pkl'', ''PKL''),
                              (''index.faiss'', ''vectors''), (''index.pkl'', ''docstore'')],
                self_cache := \<lparr>cache = [], ttl = 3600\<rparr>\<rparr>) \<noteq> vector_store demo_self"
    by (simp add: demo_self_simps demo_store_def)
  have no: "map_of (dir_files demo_persisted) ''faiss_index'' = None"
    by (simp add: demo_persisted_def)
  have bd: "backup_dirs demo_persisted = []"
    by (simp add: demo_persisted_def demo_self_simps)
  note inst = snapshot_exactly_when_index_file_exists [of _ demo_vs_lib demo_documents "Inr ()" _ "''uuid-0''"]
  from inst [of demo_self, THEN conjunct1, rule_format, OF conjI, OF ex conjI, OF demo_add_ok disjI1, OF ch1]
       inst [of demo_self, THEN conjunct2, THEN conjunct1, rule_format, OF conjI, OF ex conjI,
             OF demo_delete_ok disjI1, OF ch2]
       inst [of demo_persisted demo_persisted, THEN conjunct2, THEN conjunct2, rule_format, OF no]
       ix no bd
  show ?thesis by simp
qed

text \<open>
  C2. Every \<open>add_documents\<close> or \<open>delete_document\<close> on a store that was persisted before
  should commit only after a snapshot of the persisted state has been taken. The code calls
  \<open>create_backup\<close> first for this, but \<open>create_backup\<close> looks for the file \<open>faiss_index\<close>,
  which no method writes: the store is persisted by \<open>save_local\<close>, which writes files of its
  own names (\<open>index.faiss\<close> and \<open>index.pkl\<close>). So the code does not keep C2: a store created
  in an empty directory is persisted by its first \<open>add_documents\<close>; the next \<open>add_documents\<close>
  on this persisted store adds the row \<open>uuid-b\<close>, saves and returns normally, and no backup
  directory exists.
\<close>

theorem persisted_store_mutated_without_snapshot:
  "add_documents demo_vs_lib demo_documents (demo_self\<lparr>dir_files := []\<rparr>) = (Inr (), demo_persisted)
   \<and> dir_files demo_persisted = [(''index.faiss'', ''vectors''), (''index.pkl'', ''docstore'')]
   \<and> add_documents (demo_vs_lib\<lparr>uuid4 := \<lambda>j. ''uuid-b''\<rparr>) demo_documents demo_persisted =
       (Inr (), demo_persisted\<lparr>vector_store := demo_store_added2\<rparr>)
   \<and> map eid (entries (vector_store demo_persisted)) = [''uuid-0'', ''uuid-a'']
   \<and> map eid (entries (vector_store (demo_persisted\<lparr>vector_store := demo_store_added2\<rparr>)))
       = [''uuid-0'', ''uuid-a'', ''uuid-b'']
   \<and> backup_dirs (demo_persisted\<lparr>vector_store := demo_store_added2\<rparr>) = []"
  by (simp add: demo_fresh_add demo_second_add)
     (simp add: demo_persisted_def demo_self_def demo_store_added_def demo_store_added2_def)

text \<open>
  C3, as the code has it. After a successful \<open>add_documents\<close> that produced at least one
  chunk, and after a successful \<open>delete_document\<close>, the cache holds no entry. An
  \<open>add_documents\<close> that produced no chunk returns early: cache, index and files are as
  before.
\<close>

theorem successful_mutation_clears_cache:
  "(add_documents lib documents self = (Inr (), self')
      \<and> chunk_documents (docs_lib lib) (doc_processor self) documents \<noteq> Inr []
    \<longrightarrow> cache (self_cache self') = [])
   \<and> (delete_document lib document_id self = (Inr (), self') \<longrightarrow> cache (self_cache self') = [])
   \<and> (add_documents lib documents self = (Inr (), self')
      \<and> chunk_documents (docs_lib lib) (doc_processor self) documents = Inr []
    \<longrightarrow> self_cache self' = self_cache self \<and> vector_store self' = vector_store self
        \<and> dir_files self' = dir_files self)"
proof -
  have one: "cache (self_cache self') = []"
    if run: "add_documents lib documents self = (Inr (), self')"
      and ne: "chunk_documents (docs_lib lib) (doc_processor self) documents \<noteq> Inr []"
    using run
  proof (cases rule: add_documents_cases)
    case (no_chunks msg)
    with ne show ?thesis by simp
  next
    case (finished chunks msg self1 vs self2)
    then show ?thesis by (simp add: clear_cache_keeps)
  qed simp_all
  have two: "cache (self_cache self') = []"
    if run: "delete_document lib document_id self = (Inr (), self')"
    using run
  proof (cases rule: delete_document_cases)
    case (finished msg self1 vs self2)
    then show ?thesis by (simp add: clear_cache_keeps)
  qed simp_all
  have three: "self_cache self' = self_cache self \<and> vector_store self' = vector_store self
        \<and> dir_files self' = dir_files self"
    if run: "add_documents lib documents self = (Inr (), self')"
      and emp: "chunk_documents (docs_lib lib) (doc_processor self) documents = Inr []"
    using run
  proof (cases rule: add_documents_cases)
    case (no_chunks msg)
    from create_backup_keeps [OF no_chunks(2)] show ?thesis by simp
  next
    case (finished chunks msg self1 vs self2)
    with emp show ?thesis by simp
  qed simp_all
  from one two three show ?thesis by blast
qed

theorem successful_mutation_clears_cache_witness:
  "add_documents demo_vs_lib demo_documents demo_self =
     (Inr (),
      demo_self\<lparr>backup_dirs := demo_snapshot, vector_store := demo_store_added,
                dir_files := [(''faiss_index'', ''IDX''), (''store.pkl'', ''PKL''),
                              (''index.faiss'', ''vectors''), (''index.pkl'', ''docstore'')],
                self_cache := \<lparr>cache = [], ttl = 3600\<rparr>\<rparr>)
   \<and> chunk_documents (docs_lib demo_vs_lib) (doc_processor demo_self) demo_documents \<noteq> Inr []
   \<and> cache (self_cache (demo_self\<lparr>backup_dirs := demo_snapshot, vector_store := demo_store_added,
                dir_files := [(''faiss_index'', ''IDX''), (''store.pkl'', ''PKL''),
                              (''index.faiss'', ''vectors''), (''index.pkl'', ''docstore'')],
                self_cache := \<lparr>cache = [], ttl = 3600\<rparr>\<rparr>)) = []
   \<and> delete_document demo_vs_lib ''uuid-0'' demo_self =
     (Inr (),
      demo_self\<lparr>backup_dirs := demo_snapshot, vector_store := \<lparr>index_d = 2, entries = []\<rparr>,
                dir_files := [(''faiss_index'', ''IDX''), (''store.pkl'', ''PKL''),
                              (''index.faiss'', ''vectors''), (''index.pkl'', ''docstore'')],
                self_cache := \<lparr>cache = [], ttl = 3600\<rparr>\<rparr>)
   \<and> self_cache (demo_self\<lparr>backup_dirs := demo_snapshot\<rparr>) = self_cache demo_self"
proof -
  have ne: "chunk_documents (docs_lib demo_vs_lib) (doc_processor demo_self) demo_documents \<noteq> Inr []"
    by (simp add: demo_vs_lib_def demo_lib_simps demo_chunks)
  have em: "chunk_documents (docs_lib demo_vs_lib) (doc_processor demo_self) [] = Inr []"
    by (simp add: demo_vs_lib_def demo_lib_simps demo_no_chunks)
  note inst = successful_mutation_clears_cache [of demo_vs_lib _ demo_self _ "''uuid-0''"]
  from inst [of demo_documents, THEN conjunct1, rule_format, OF conjI, OF demo_add_ok ne]
       inst [of demo_documents, THEN conjunct2, THEN conjunct1, rule_format, OF demo_delete_ok]
       inst [of "[]", THEN conjunct2, THEN conjunct2, rule_format, OF conjI, OF demo_add_nothing em]
       demo_add_ok demo_delete_ok ne
  show ?thesis by blast
qed

text \<open>
  C3 as stated fails: a successful \<open>add_documents([])\<close> leaves the cached answer in place, and
  so does a successful \<open>restore_backup\<close>, which replaces the index without clearing the cache.
\<close>

theorem cache_survives_empty_add_and_restore:
  "add_documents demo_vs_lib [] demo_self = (Inr (), demo_self\<lparr>backup_dirs := demo_snapshot\<rparr>)
   \<and> cache (self_cache (demo_self\<lparr>backup_dirs := demo_snapshot\<rparr>))
       = [(''q:kenya'', (PyStr ''answer'', Some 3600))]
   \<and> restore_backup demo_vs_lib ''20240101_120000''
       (demo_self\<lparr>backup_dirs := demo_snapshot, vector_store := demo_store_added\<rparr>) =
     (Inr ''Restored from backup 20240101_120000'',
      demo_self\<lparr>backup_dirs := demo_snapshot, vector_store := demo_store\<rparr>)
   \<and> cache (self_cache (demo_self\<lparr>backup_dirs := demo_snapshot, vector_store := demo_store\<rparr>))
       = [(''q:kenya'', (PyStr ''answer'', Some 3600))]"
  by (simp add: demo_add_nothing demo_restore demo_self_simps)

text \<open>
  C4, as the code has it. When \<open>faiss_index\<close> or \<open>store.pkl\<close> is missing, or \<open>load_local\<close>
  fails, \<open>_load_or_create_store\<close> returns the store that \<open>_create_new_store\<close> builds: exactly
  one row, the document \<open>initialization document\<close> with metadata \<open>source = initialization\<close>
  and its embedding; the placeholder is not removed. If the embedder fails on that text,
  the call raises the embedder's error.
\<close>

theorem fresh_store_holds_the_placeholder:
  assumes "map_of fs ''faiss_index'' = None \<or> map_of fs ''store.pkl'' = None
           \<or> (\<exists>e. load_local lib fs = Inl e)"
  shows "(\<forall>e. embed_document lib ''initialization document'' = Inl e \<longrightarrow>
            load_or_create_store lib fs = Inl e)
       \<and> (\<forall>v. embed_document lib ''initialization document'' = Inr v \<longrightarrow>
            load_or_create_store lib fs =
              Inr \<lparr>index_d = length v,
                   entries = [\<lparr>eid = uuid4 lib 0, embedding = v,
                               doc = \<lparr>page_content = ''initialization document'',
                                      metadata = [(''source'', PyStr ''initialization'')]\<rparr>\<rparr>]\<rparr>)"
proof -
  from assms have "load_or_create_store lib fs = create_new_store lib"
    by (auto simp: load_or_create_store_def)
  then show ?thesis by (simp add: create_new_store_eq)
qed

theorem fresh_store_holds_the_placeholder_witness:
  "map_of ([] :: files) ''faiss_index'' = None
   \<and> embed_document demo_vs_lib ''initialization document'' = Inr [23, 1]
   \<and> load_or_create_store demo_vs_lib [] =
       Inr \<lparr>index_d = length [23, 1 :: real],
            entries = [\<lparr>eid = uuid4 demo_vs_lib 0, embedding = [23, 1],
                        doc = \<lparr>page_content = ''initialization document'',
                               metadata = [(''source'', PyStr ''initialization'')]\<rparr>\<rparr>]\<rparr>
   \<and> load_or_create_store
         (demo_vs_lib\<lparr>embed_document := \<lambda>t. Inl (Raise OSError ''model not found'')\<rparr>) [] =
       Inl (Raise OSError ''model not found'')"
proof -
  have none: "map_of ([] :: files) ''faiss_index'' = None
           \<or> map_of ([] :: files) ''store.pkl'' = None \<or> (\<exists>e. load_local lib ([] :: files) = Inl e)" for lib :: vs_lib
    by simp
  have em: "embed_document demo_vs_lib ''initialization document'' = Inr [23, 1]"
    by (simp add: demo_vs_lib_def demo_lib_simps)
  have bad: "embed_document (demo_vs_lib\<lparr>embed_document := \<lambda>t. Inl (Raise OSError ''model not found'')\<rparr>)
      ''initialization document'' = Inl (Raise OSError ''model not found'')"
    by simp
  from fresh_store_holds_the_placeholder [OF none, THEN conjunct2, rule_format, OF em]
       fresh_store_holds_the_placeholder [OF none, THEN conjunct1, rule_format, OF bad]
       em
  show ?thesis by simp
qed

text \<open>
  C4 as stated fails: with no persisted files, and with files that cannot be read, the fresh
  store holds one row, the initialization document.
\<close>

theorem fresh_store_is_not_empty:
  "load_or_create_store demo_vs_lib [] =
     Inr \<lparr>index_d = 2,
          entries = [\<lparr>eid = ''uuid-a'', embedding = [23, 1],
                      doc = \<lparr>page_content = ''initialization document'',
                             metadata = [(''source'', PyStr ''initialization'')]\<rparr>\<rparr>]\<rparr>
   \<and> load_or_create_store (demo_vs_lib\<lparr>load_local := \<lambda>fs. Inl (Raise ValueError ''could not unpickle'')\<rparr>)
       [(''faiss_index'', ''garbage''), (''store.pkl'', ''garbage'')] =
     Inr \<lparr>index_d = 2,
          entries = [\<lparr>eid = ''uuid-a'', embedding = [23, 1],
                      doc = \<lparr>page_content = ''initialization document'',
                             metadata = [(''source'', PyStr ''initialization'')]\<rparr>\<rparr>]\<rparr>"
  by (simp add: demo_load_or_create)
     (simp add: load_or_create_store_def create_new_store_def FAISS_from_texts_def
      demo_vs_lib_def demo_lib_with_def and_then_def faiss_add_def)






text \<open>
  C7. \<open>similarity_search\<close> returns the empty list, and raises nothing, when the store has no
  rows and when embedding the query fails, for every query, every \<open>k\<close> and every filter.
  Its result is a plain list: an error of the library never reaches the caller.
\<close>

theorem search_empty_on_no_entries_or_embedder_failure:
  assumes "entries (vector_store self) = [] \<or> (\<exists>e. embed_query lib query = Inl e)"
  shows "similarity_search lib self query k flt = []"
proof (cases "embed_query lib query")
  case (Inl e)
  then show ?thesis
    by (simp add: similarity_search_def FAISS_similarity_search_def and_then_def)
next
  case (Inr q)
  with assms have "entries (vector_store self) = []" by simp
  with Inr show ?thesis
    by (simp add: similarity_search_def FAISS_similarity_search_def and_then_def Let_def py_prefix_def)
qed

theorem search_empty_on_no_entries_or_embedder_failure_witness:
  "entries (vector_store (demo_self\<lparr>vector_store := \<lparr>index_d = 2, entries = []\<rparr>\<rparr>)) = []
   \<and> similarity_search demo_vs_lib (demo_self\<lparr>vector_store := \<lparr>index_d = 2, entries = []\<rparr>\<rparr>)
        ''capital of Kenya'' None None = []
   \<and> embed_query (demo_vs_lib\<lparr>embed_query := \<lambda>t. Inl (Raise OSError ''model not found'')\<rparr>)
        ''capital of Kenya'' = Inl (Raise OSError ''model not found'')
   \<and> similarity_search (demo_vs_lib\<lparr>embed_query := \<lambda>t. Inl (Raise OSError ''model not found'')\<rparr>)
        demo_self ''capital of Kenya'' (Some 4) None = []
   \<and> similarity_search demo_vs_lib demo_self ''capital of Kenya'' None None =
        [\<lparr>page_content = ''initialization document'',
          metadata = [(''source'', PyStr ''initialization'')]\<rparr>]"
proof -
  have e: "entries (vector_store (demo_self\<lparr>vector_store := \<lparr>index_d = 2, entries = []\<rparr>\<rparr>)) = []"
    by simp
  have f: "embed_query (demo_vs_lib\<lparr>embed_query := \<lambda>t. Inl (Raise OSError ''model not found'')\<rparr>)
        ''capital of Kenya'' = Inl (Raise OSError ''model not found'')"
    by simp
  have g: "similarity_search demo_vs_lib demo_self ''capital of Kenya'' None None =
        [\<lparr>page_content = ''initialization document'',
          metadata = [(''source'', PyStr ''initialization'')]\<rparr>]"
    by (simp add: similarity_search_def FAISS_similarity_search_def demo_vs_lib_def demo_lib_simps
        and_then_def demo_self_simps demo_store_def py_prefix_def)
  from search_empty_on_no_entries_or_embedder_failure [OF disjI1, OF e]
       search_empty_on_no_entries_or_embedder_failure [OF disjI2, OF exI, OF f]
       e f g
  show ?thesis by simp
qed

subsection \<open>Further properties\<close>

text \<open>
  \<open>restore_backup\<close> never touches the cache, whatever it returns: unlike \<open>add_documents\<close> and
  \<open>delete_document\<close> it has no \<open>cache.clear()\<close>.
\<close>

theorem restore_backup_keeps_cache:
  "self_cache (snd (restore_backup lib backup_timestamp self)) = self_cache self"
  by (simp add: restore_backup_def Let_def split: option.splits sum.splits)

lemma search_loop_returns:
  assumes "\<forall>h \<in> set hits. \<exists>l t b n. map_of h ''link'' = Some l \<and> map_of h ''title'' = Some t
             \<and> map_of h ''body'' = Some b \<and> urlparse_netloc lib l = Inr n"
  shows "\<exists>rs. search_loop lib m hits acc = Inr rs"
  using assms
proof (induction hits arbitrary: acc)
  case Nil
  then show ?case by simp
next
  case (Cons h hs)
  then obtain l t b n where k: "map_of h ''link'' = Some l" "map_of h ''title'' = Some t"
    "map_of h ''body'' = Some b" "urlparse_netloc lib l = Inr n" by auto
  then have "\<exists>acc'. search_body lib m acc h = Inr acc'"
    by (simp add: search_body_def and_then_def getitem_def is_kenyan_domain_def)
  then obtain acc' where b: "search_body lib m acc h = Inr acc'" by blast
  from Cons.IH [of acc'] Cons.prems obtain rs where "search_loop lib m hs acc' = Inr rs" by auto
  with b show ?case by simp
qed

text \<open>
  The web search returns (it does not raise) when the provider answers, every hit has the keys
  \<open>link\<close>, \<open>title\<close> and \<open>body\<close>, and \<open>urlparse\<close> accepts every link.
\<close>

theorem search_returns_on_well_formed_hits:
  assumes "ddgs_text lib query 20 = Inr hits"
    and "\<forall>h \<in> set hits. \<exists>l t b n. map_of h ''link'' = Some l \<and> map_of h ''title'' = Some t
             \<and> map_of h ''body'' = Some b \<and> urlparse_netloc lib l = Inr n"
  shows "\<exists>rs. search lib query max_results = Inr rs"
  using assms(1) search_loop_returns [OF assms(2)]
  by (simp add: search_def and_then_def)

theorem search_returns_on_well_formed_hits_witness:
  "ddgs_text demo_web ''kra'' 20 = Inr demo_hits \<and> (\<exists>rs. search demo_web ''kra'' None = Inr rs)"
proof -
  have h: "ddgs_text demo_web ''kra'' 20 = Inr demo_hits"
    by (simp add: demo_web_def demo_hits_def)
  have w: "\<forall>h \<in> set demo_hits. \<exists>l t b n. map_of h ''link'' = Some l \<and> map_of h ''title'' = Some t
             \<and> map_of h ''body'' = Some b \<and> urlparse_netloc demo_web l = Inr n"
    by (simp add: demo_hits_def demo_web_def plain_netloc_def Let_def)
  from search_returns_on_well_formed_hits [OF h w] h show ?thesis by blast
qed

end
